theory Spec2Isabelle
  imports Main
begin

section \<open>Python values and the built-ins the data-access layer calls\<close>

text \<open>
  The dictionaries that reach \<^verbatim>\<open>database.py\<close> hold form fields (strings) or the
  literals of \<^verbatim>\<open>setup_test_database\<close> (strings and integers); a value is
  \<^verbatim>\<open>None\<close>, an integer or a string. Integers are Python's unbounded ones. Strings are
  ASCII texts: one \<open>char\<close> per code point.
\<close>

datatype pyval = PNone | PInt int | PStr string

type_synonym pydict = "string \<rightharpoonup> pyval"

datatype error =
    KeyError string
  | ValueError string
  | OverflowError string
  | IntegrityError string
  | DoesNotExist string

text \<open>
  \<^verbatim>\<open>str(e)\<close>: a \<^verbatim>\<open>KeyError\<close> prints the quoted key, the others their message. The
  messages below are those of SQLite and of the \<^verbatim>\<open>sqlite3\<close> driver; a \<^verbatim>\<open>DoesNotExist\<close>
  carries only the name of its table here.
\<close>

fun error_text :: "error \<Rightarrow> string" where
  "error_text (KeyError k) = [CHR 0x27] @ k @ [CHR 0x27]"
| "error_text (ValueError m) = m"
| "error_text (OverflowError m) = m"
| "error_text (IntegrityError m) = m"
| "error_text (DoesNotExist m) = m"

subsection \<open>\<^verbatim>\<open>int(x)\<close>\<close>

text \<open>
  \<^verbatim>\<open>int\<close> of a string strips surrounding whitespace, reads an optional sign and then
  decimal digits, where single underscores may separate digits; anything else raises
  \<^verbatim>\<open>ValueError\<close>. \<^verbatim>\<open>int(None)\<close> raises \<^verbatim>\<open>TypeError\<close>. The result \<open>None\<close> stands for
  either exception: the only caller catches \<^verbatim>\<open>Exception\<close>. The interpreter's limit on
  the number of digits of a literal is not modelled.
\<close>

definition is_space :: "char \<Rightarrow> bool" where
  "is_space c = (let n = (of_char c :: nat) in (9 \<le> n \<and> n \<le> 13) \<or> (28 \<le> n \<and> n \<le> 32))"

definition strip :: "string \<Rightarrow> string" where
  "strip s = rev (dropWhile is_space (rev (dropWhile is_space s)))"

definition digit_val :: "char \<Rightarrow> int option" where
  "digit_val c =
     (let n = (of_char c :: int) in if 48 \<le> n \<and> n \<le> 57 then Some (n - 48) else None)"

text \<open>
  \<open>parse_digits acc prev cs\<close>: \<open>acc\<close> is the value read so far, \<open>prev\<close> tells whether the
  character before \<open>cs\<close> was a digit (an underscore needs a digit on both sides).
\<close>

fun parse_digits :: "int \<Rightarrow> bool \<Rightarrow> string \<Rightarrow> int option" where
  "parse_digits acc prev [] = (if prev then Some acc else None)"
| "parse_digits acc prev (c # cs) =
     (if c = CHR ''_'' then (if prev \<and> cs \<noteq> [] then parse_digits acc False cs else None)
      else (case digit_val c of
              None \<Rightarrow> None
            | Some d \<Rightarrow> parse_digits (10 * acc + d) True cs))"

definition py_int_str :: "string \<Rightarrow> int option" where
  "py_int_str s =
     (case strip s of
        [] \<Rightarrow> None
      | c # cs \<Rightarrow>
          if c = CHR ''-'' then map_option uminus (parse_digits 0 False cs)
          else if c = CHR ''+'' then parse_digits 0 False cs
          else parse_digits 0 False (c # cs))"

fun py_int :: "pyval \<Rightarrow> int option" where
  "py_int PNone = None"
| "py_int (PInt i) = Some i"
| "py_int (PStr s) = py_int_str s"

subsection \<open>\<^verbatim>\<open>str(i)\<close> of an integer\<close>

function digits10 :: "nat \<Rightarrow> string" where
  "digits10 n =
     (if n < 10 then [char_of (48 + n)] else digits10 (n div 10) @ [char_of (48 + n mod 10)])"
  by pat_completeness auto
termination
  by (relation "measure (\<lambda>n. n)") auto

declare digits10.simps [simp del]

definition py_str_int :: "int \<Rightarrow> string" where
  "py_str_int i = (if i < 0 then CHR ''-'' # digits10 (nat (- i)) else digits10 (nat i))"

section \<open>The tables\<close>

text \<open>
  \<^verbatim>\<open>Kind\<close>, \<^verbatim>\<open>Owner\<close> and \<^verbatim>\<open>Pet\<close>: one record per row, the nullable columns as options.
  A table is the list of its rows in the order of insertion.
\<close>

record kind_row =
  k_id :: int
  k_name :: string
  food :: "string option"
  sound :: "string option"

record owner_row =
  o_id :: int
  o_name :: string
  address :: "string option"

record pet_row =
  p_id :: int
  p_name :: string
  age :: "int option"
  kind_id :: int
  owner_id :: int

text \<open>
  The state is what the handle \<^verbatim>\<open>db\<close> stands for once \<^verbatim>\<open>initialize\<close> has run: the three
  tables behind one connection with \<^verbatim>\<open>PRAGMA foreign_keys = 1\<close>, every statement running
  on that connection and committing or failing as a whole.

  \<open>text_as_key\<close> is the one behaviour of the connection that the source does not fix: what
  an integer column makes of a text that \<^verbatim>\<open>int\<close> refuses. Depending on the installed
  peewee the field conversion raises (\<open>Inl e\<close>), or the text goes to SQLite, which reads
  it as an integer (\<open>Inr (Some n)\<close>) or leaves it a text that equals no key
  (\<open>Inr None\<close>). No operation writes this field.
\<close>

record database =
  kind_table :: "kind_row list"
  owner_table :: "owner_row list"
  pet_table :: "pet_row list"
  text_as_key :: "string \<Rightarrow> error + int option"

text \<open>
  \<^verbatim>\<open>initialize\<close> on a fresh file: \<^verbatim>\<open>create_tables\<close> makes the three tables, empty.
\<close>

definition initialize :: "(string \<Rightarrow> error + int option) \<Rightarrow> database" where
  "initialize conv =
     \<lparr>kind_table = [], owner_table = [], pet_table = [], text_as_key = conv\<rparr>"

subsection \<open>Values on their way into a statement\<close>

datatype sqlval = SqlNull | SqlInt int | SqlText string

text \<open>
  A \<^verbatim>\<open>CharField\<close> keeps \<^verbatim>\<open>None\<close> as NULL and turns everything else into its \<^verbatim>\<open>str\<close>.
\<close>

fun adapt_text :: "pyval \<Rightarrow> string option" where
  "adapt_text PNone = None"
| "adapt_text (PStr s) = Some s"
| "adapt_text (PInt i) = Some (py_str_int i)"

text \<open>
  An integer column (\<^verbatim>\<open>AutoField\<close>, and a \<^verbatim>\<open>ForeignKeyField\<close> through the key it points
  to) keeps \<^verbatim>\<open>None\<close> as NULL and applies \<^verbatim>\<open>int\<close>; a text that \<^verbatim>\<open>int\<close> refuses is handled as
  \<open>text_as_key\<close> says.
\<close>

definition adapt_int :: "database \<Rightarrow> pyval \<Rightarrow> error + sqlval" where
  "adapt_int db v =
     (case v of
        PNone \<Rightarrow> Inr SqlNull
      | PInt i \<Rightarrow> Inr (SqlInt i)
      | PStr s \<Rightarrow>
          (case py_int_str s of
             Some i \<Rightarrow> Inr (SqlInt i)
           | None \<Rightarrow>
               (case text_as_key db s of
                  Inl e \<Rightarrow> Inl e
                | Inr (Some n) \<Rightarrow> Inr (SqlInt n)
                | Inr None \<Rightarrow> Inr (SqlText s))))"

text \<open>
  The driver binds an integer parameter as a signed 64-bit value and raises
  \<^verbatim>\<open>OverflowError\<close> for any other.
\<close>

definition sql_int :: "int \<Rightarrow> bool" where
  "sql_int i = (- (2 ^ 63) \<le> i \<and> i < 2 ^ 63)"

fun bindable :: "sqlval \<Rightarrow> bool" where
  "bindable (SqlInt i) = sql_int i"
| "bindable _ = True"


definition overflow_error :: error where
  "overflow_error = OverflowError ''Python int too large to convert to SQLite INTEGER''"

definition not_null_error :: "string \<Rightarrow> error" where
  "not_null_error col = IntegrityError (''NOT NULL constraint failed: '' @ col)"

definition fk_error :: error where
  "fk_error = IntegrityError ''FOREIGN KEY constraint failed''"

text \<open>\<open>selects v i\<close>: the row with key \<open>i\<close> satisfies \<^verbatim>\<open>WHERE id = v\<close>.\<close>

fun selects :: "sqlval \<Rightarrow> int \<Rightarrow> bool" where
  "selects (SqlInt j) i = (i = j)"
| "selects _ i = False"

text \<open>
  The key of a new row: one more than the largest key in the table, 1 in an empty table.
  (A table whose largest key is \<open>2 ^ 63 - 1\<close> is out of reach of these operations.)
\<close>

fun next_id :: "int list \<Rightarrow> int" where
  "next_id [] = 1"
| "next_id (x # xs) = fold max xs x + 1"

section \<open>The data-access layer (\<^verbatim>\<open>database.py\<close>)\<close>

subsection \<open>Reads\<close>

definition opt_str :: "string option \<Rightarrow> pyval" where
  "opt_str x = (case x of None \<Rightarrow> PNone | Some s \<Rightarrow> PStr s)"

definition opt_int :: "int option \<Rightarrow> pyval" where
  "opt_int x = (case x of None \<Rightarrow> PNone | Some i \<Rightarrow> PInt i)"

text \<open>The columns \<^verbatim>\<open>get_pets\<close> selects, under the names and aliases it gives them.\<close>

definition pet_join_row :: "pet_row \<Rightarrow> kind_row \<Rightarrow> owner_row \<Rightarrow> pydict" where
  "pet_join_row p k ow =
     [''id'' \<mapsto> PInt (p_id p), ''name'' \<mapsto> PStr (p_name p), ''age'' \<mapsto> opt_int (age p),
      ''kind_name'' \<mapsto> PStr (k_name k), ''food'' \<mapsto> opt_str (food k),
      ''sound'' \<mapsto> opt_str (sound k), ''owner'' \<mapsto> PStr (o_name ow)]"

text \<open>
  \<^verbatim>\<open>Pet.select(...).join(Kind).switch(Pet).join(Owner)\<close>: the inner join of \<^verbatim>\<open>Pet\<close> with
  \<^verbatim>\<open>Kind\<close> on \<^verbatim>\<open>pet.kind_id = kind.id\<close> and with \<^verbatim>\<open>Owner\<close> on \<^verbatim>\<open>pet.owner_id = owner.id\<close>,
  one dictionary per joined row. (The \<^verbatim>\<open>print\<close> of each row is left out, here and in
  the other reads.)
\<close>

definition get_pets :: "database \<Rightarrow> pydict list" where
  "get_pets db =
     [pet_join_row p k ow.
        p \<leftarrow> pet_table db,
        k \<leftarrow> kind_table db, k_id k = kind_id p,
        ow \<leftarrow> owner_table db, o_id ow = owner_id p]"

definition kind_dict :: "kind_row \<Rightarrow> pydict" where
  "kind_dict k =
     [''id'' \<mapsto> PInt (k_id k), ''name'' \<mapsto> PStr (k_name k), ''food'' \<mapsto> opt_str (food k),
      ''sound'' \<mapsto> opt_str (sound k)]"

definition owner_dict :: "owner_row \<Rightarrow> pydict" where
  "owner_dict ow =
     [''id'' \<mapsto> PInt (o_id ow), ''name'' \<mapsto> PStr (o_name ow),
      ''address'' \<mapsto> opt_str (address ow)]"

definition get_kinds :: "database \<Rightarrow> pydict list" where
  "get_kinds db = map kind_dict (kind_table db)"

definition get_owners :: "database \<Rightarrow> pydict list" where
  "get_owners db = map owner_dict (owner_table db)"

text \<open>What a get-one function returns: a dictionary or a string.\<close>

datatype pyobj = Dict pydict | Str string

text \<open>
  \<^verbatim>\<open>Model.get_or_none(Model.id == id)\<close>: the first row the condition selects, if any.
  The condition's value goes through the field conversion and the driver first.
\<close>

definition get_or_none :: "database \<Rightarrow> ('r \<Rightarrow> int) \<Rightarrow> 'r list \<Rightarrow> pyval \<Rightarrow> error + 'r option" where
  "get_or_none db key rows idv =
     (case adapt_int db idv of
        Inl e \<Rightarrow> Inl e
      | Inr v \<Rightarrow>
          if \<not> bindable v then Inl overflow_error
          else Inr (find (\<lambda>r. selects v (key r)) rows))"

text \<open>
  \<^verbatim>\<open>pet.kind.id\<close> and \<^verbatim>\<open>pet.owner.id\<close> load the referenced row (\<^verbatim>\<open>Kind.get\<close>,
  \<^verbatim>\<open>Owner.get\<close>), which raises \<^verbatim>\<open>DoesNotExist\<close> when there is none. A model instance is
  always true, so \<^verbatim>\<open>if pet:\<close> tests for \<^verbatim>\<open>None\<close> only.
\<close>

definition get_pet :: "pyval \<Rightarrow> database \<Rightarrow> error + pyobj" where
  "get_pet idv db =
     (case get_or_none db p_id (pet_table db) idv of
        Inl e \<Rightarrow> Inl e
      | Inr None \<Rightarrow> Inr (Str ''Data not found.'')
      | Inr (Some pet) \<Rightarrow>
          (case find (\<lambda>k. k_id k = kind_id pet) (kind_table db) of
             None \<Rightarrow> Inl (DoesNotExist ''Kind'')
           | Some kind \<Rightarrow>
               (case find (\<lambda>ow. o_id ow = owner_id pet) (owner_table db) of
                  None \<Rightarrow> Inl (DoesNotExist ''Owner'')
                | Some owner \<Rightarrow>
                    Inr (Dict [''id'' \<mapsto> PInt (p_id pet), ''name'' \<mapsto> PStr (p_name pet),
                               ''kind_id'' \<mapsto> PInt (k_id kind), ''age'' \<mapsto> opt_int (age pet),
                               ''owner_id'' \<mapsto> PInt (o_id owner)]))))"

definition get_kind :: "pyval \<Rightarrow> database \<Rightarrow> error + pyobj" where
  "get_kind idv db =
     (case get_or_none db k_id (kind_table db) idv of
        Inl e \<Rightarrow> Inl e
      | Inr None \<Rightarrow> Inr (Str ''Data not found.'')
      | Inr (Some kind) \<Rightarrow>
          Inr (Dict [''id'' \<mapsto> PInt (k_id kind), ''name'' \<mapsto> PStr (k_name kind),
                     ''food'' \<mapsto> opt_str (food kind), ''sound'' \<mapsto> opt_str (sound kind)]))"

definition get_owner :: "pyval \<Rightarrow> database \<Rightarrow> error + pyobj" where
  "get_owner idv db =
     (case get_or_none db o_id (owner_table db) idv of
        Inl e \<Rightarrow> Inl e
      | Inr None \<Rightarrow> Inr (Str ''Data not found'')
      | Inr (Some owner) \<Rightarrow>
          Inr (Dict [''id'' \<mapsto> PInt (o_id owner), ''name'' \<mapsto> PStr (o_name owner),
                     ''address'' \<mapsto> opt_str (address owner)]))"

subsection \<open>Statements that write\<close>

text \<open>
  A write returns the error it raised, if any, together with the state it leaves. A
  statement first converts its values (the field conversions), then binds them (the
  driver), then runs; when it fails at any of these the tables are as before.

  \<open>check_pet_columns\<close> is what SQLite checks on a \<^verbatim>\<open>Pet\<close> row it is about to store: the
  NOT NULL columns first, then the two foreign keys.
\<close>

definition check_pet_columns ::
  "database \<Rightarrow> pyval \<Rightarrow> sqlval \<Rightarrow> sqlval \<Rightarrow> error + (string \<times> int \<times> int)" where
  "check_pet_columns db name kv ov =
     (case adapt_text name of
        None \<Rightarrow> Inl (not_null_error ''pet.name'')
      | Some n \<Rightarrow>
          if kv = SqlNull then Inl (not_null_error ''pet.kind_id'')
          else if ov = SqlNull then Inl (not_null_error ''pet.owner_id'')
          else (case (kv, ov) of
                  (SqlInt k, SqlInt ow) \<Rightarrow>
                    if (\<exists>r \<in> set (kind_table db). k_id r = k) \<and>
                       (\<exists>r \<in> set (owner_table db). o_id r = ow)
                    then Inr (n, k, ow)
                    else Inl fk_error
                | _ \<Rightarrow> Inl fk_error))"

text \<open>\<^verbatim>\<open>Pet.create(name=, age=, kind=, owner=)\<close>; the age is an integer by then.\<close>

definition Pet_create ::
  "pyval \<Rightarrow> int \<Rightarrow> pyval \<Rightarrow> pyval \<Rightarrow> database \<Rightarrow> error option \<times> database" where
  "Pet_create name a kind owner db =
     (case adapt_int db kind of
        Inl e \<Rightarrow> (Some e, db)
      | Inr kv \<Rightarrow>
     (case adapt_int db owner of
        Inl e \<Rightarrow> (Some e, db)
      | Inr ov \<Rightarrow>
          if \<not> (sql_int a \<and> bindable kv \<and> bindable ov) then (Some overflow_error, db)
          else (case check_pet_columns db name kv ov of
                  Inl e \<Rightarrow> (Some e, db)
                | Inr (n, k, ow) \<Rightarrow>
                    (None,
                     db\<lparr>pet_table := pet_table db @
                        [\<lparr>p_id = next_id (map p_id (pet_table db)), p_name = n, age = Some a,
                          kind_id = k, owner_id = ow\<rparr>]\<rparr>))))"

text \<open>\<^verbatim>\<open>Pet.update(name=, age=, kind=, owner=).where(Pet.id == id).execute()\<close>\<close>

definition Pet_update ::
  "pyval \<Rightarrow> int \<Rightarrow> pyval \<Rightarrow> pyval \<Rightarrow> pyval \<Rightarrow> database \<Rightarrow> error option \<times> database" where
  "Pet_update name a kind owner idv db =
     (case adapt_int db kind of
        Inl e \<Rightarrow> (Some e, db)
      | Inr kv \<Rightarrow>
     (case adapt_int db owner of
        Inl e \<Rightarrow> (Some e, db)
      | Inr ov \<Rightarrow>
     (case adapt_int db idv of
        Inl e \<Rightarrow> (Some e, db)
      | Inr v \<Rightarrow>
          if \<not> (sql_int a \<and> bindable kv \<and> bindable ov \<and> bindable v)
          then (Some overflow_error, db)
          else if \<not> (\<exists>p \<in> set (pet_table db). selects v (p_id p)) then (None, db)
          else (case check_pet_columns db name kv ov of
                  Inl e \<Rightarrow> (Some e, db)
                | Inr (n, k, ow) \<Rightarrow>
                    (None,
                     db\<lparr>pet_table :=
                        map (\<lambda>p. if selects v (p_id p)
                                 then p\<lparr>p_name := n, age := Some a, kind_id := k, owner_id := ow\<rparr>
                                 else p)
                          (pet_table db)\<rparr>)))))"

text \<open>\<^verbatim>\<open>Pet.delete().where(Pet.id == id).execute()\<close>: no table refers to \<^verbatim>\<open>Pet\<close>.\<close>

definition Pet_delete :: "pyval \<Rightarrow> database \<Rightarrow> error option \<times> database" where
  "Pet_delete idv db =
     (case adapt_int db idv of
        Inl e \<Rightarrow> (Some e, db)
      | Inr v \<Rightarrow>
          if \<not> bindable v then (Some overflow_error, db)
          else (None, db\<lparr>pet_table := filter (\<lambda>p. \<not> selects v (p_id p)) (pet_table db)\<rparr>))"

definition Kind_create :: "pyval \<Rightarrow> pyval \<Rightarrow> pyval \<Rightarrow> database \<Rightarrow> error option \<times> database" where
  "Kind_create name fd sd db =
     (case adapt_text name of
        None \<Rightarrow> (Some (not_null_error ''kind.name''), db)
      | Some n \<Rightarrow>
          (None,
           db\<lparr>kind_table := kind_table db @
              [\<lparr>k_id = next_id (map k_id (kind_table db)), k_name = n, food = adapt_text fd,
                sound = adapt_text sd\<rparr>]\<rparr>))"

definition Kind_update ::
  "pyval \<Rightarrow> pyval \<Rightarrow> pyval \<Rightarrow> pyval \<Rightarrow> database \<Rightarrow> error option \<times> database" where
  "Kind_update name fd sd idv db =
     (case adapt_int db idv of
        Inl e \<Rightarrow> (Some e, db)
      | Inr v \<Rightarrow>
          if \<not> bindable v then (Some overflow_error, db)
          else if \<not> (\<exists>k \<in> set (kind_table db). selects v (k_id k)) then (None, db)
          else (case adapt_text name of
                  None \<Rightarrow> (Some (not_null_error ''kind.name''), db)
                | Some n \<Rightarrow>
                    (None,
                     db\<lparr>kind_table :=
                        map (\<lambda>k. if selects v (k_id k)
                                 then k\<lparr>k_name := n, food := adapt_text fd, sound := adapt_text sd\<rparr>
                                 else k)
                          (kind_table db)\<rparr>)))"

text \<open>
  \<^verbatim>\<open>Kind.delete().where(Kind.id == id).execute()\<close>; \<^verbatim>\<open>Pet.kind\<close> is declared
  \<^verbatim>\<open>on_delete="RESTRICT"\<close>, so the statement fails when a row it would delete is the
  kind of some pet.
\<close>

definition Kind_delete :: "pyval \<Rightarrow> database \<Rightarrow> error option \<times> database" where
  "Kind_delete idv db =
     (case adapt_int db idv of
        Inl e \<Rightarrow> (Some e, db)
      | Inr v \<Rightarrow>
          if \<not> bindable v then (Some overflow_error, db)
          else if \<exists>k \<in> set (kind_table db).
                    selects v (k_id k) \<and> (\<exists>p \<in> set (pet_table db). kind_id p = k_id k)
          then (Some fk_error, db)
          else (None, db\<lparr>kind_table := filter (\<lambda>k. \<not> selects v (k_id k)) (kind_table db)\<rparr>))"

definition Owner_create :: "pyval \<Rightarrow> pyval \<Rightarrow> database \<Rightarrow> error option \<times> database" where
  "Owner_create name addr db =
     (case adapt_text name of
        None \<Rightarrow> (Some (not_null_error ''owner.name''), db)
      | Some n \<Rightarrow>
          (None,
           db\<lparr>owner_table := owner_table db @
              [\<lparr>o_id = next_id (map o_id (owner_table db)), o_name = n,
                address = adapt_text addr\<rparr>]\<rparr>))"

definition Owner_update :: "pyval \<Rightarrow> pyval \<Rightarrow> pyval \<Rightarrow> database \<Rightarrow> error option \<times> database" where
  "Owner_update name addr idv db =
     (case adapt_int db idv of
        Inl e \<Rightarrow> (Some e, db)
      | Inr v \<Rightarrow>
          if \<not> bindable v then (Some overflow_error, db)
          else if \<not> (\<exists>ow \<in> set (owner_table db). selects v (o_id ow)) then (None, db)
          else (case adapt_text name of
                  None \<Rightarrow> (Some (not_null_error ''owner.name''), db)
                | Some n \<Rightarrow>
                    (None,
                     db\<lparr>owner_table :=
                        map (\<lambda>ow. if selects v (o_id ow)
                                  then ow\<lparr>o_name := n, address := adapt_text addr\<rparr>
                                  else ow)
                          (owner_table db)\<rparr>)))"

text \<open>\<^verbatim>\<open>Pet.owner\<close> is declared \<^verbatim>\<open>on_delete="RESTRICT"\<close> as well.\<close>

definition Owner_delete :: "pyval \<Rightarrow> database \<Rightarrow> error option \<times> database" where
  "Owner_delete idv db =
     (case adapt_int db idv of
        Inl e \<Rightarrow> (Some e, db)
      | Inr v \<Rightarrow>
          if \<not> bindable v then (Some overflow_error, db)
          else if \<exists>ow \<in> set (owner_table db).
                    selects v (o_id ow) \<and> (\<exists>p \<in> set (pet_table db). owner_id p = o_id ow)
          then (Some fk_error, db)
          else (None,
                db\<lparr>owner_table := filter (\<lambda>ow. \<not> selects v (o_id ow)) (owner_table db)\<rparr>))"

subsection \<open>The functions of \<^verbatim>\<open>database.py\<close> that write\<close>

text \<open>\<^verbatim>\<open>data[k]\<close> raises \<^verbatim>\<open>KeyError\<close> on a key the dictionary lacks.\<close>

definition subscript :: "pydict \<Rightarrow> string \<Rightarrow> error + pyval" where
  "subscript data k = (case data k of None \<Rightarrow> Inl (KeyError k) | Some v \<Rightarrow> Inr v)"

text \<open>
  The \<^verbatim>\<open>try\<close> block of \<^verbatim>\<open>create_pet\<close> and \<^verbatim>\<open>update_pet\<close>: \<^verbatim>\<open>int(data["age"])\<close>, and 0 when
  the subscript or the conversion raises.
\<close>

definition coerced_age :: "pydict \<Rightarrow> int" where
  "coerced_age data =
     (case data ''age'' of
        None \<Rightarrow> 0
      | Some v \<Rightarrow> (case py_int v of None \<Rightarrow> 0 | Some n \<Rightarrow> n))"

text \<open>
  \<^verbatim>\<open>create_pet\<close> and \<^verbatim>\<open>update_pet\<close> assign to \<^verbatim>\<open>data["age"]\<close>, the caller's dictionary: they
  return it as it is afterwards, whether they raise or not.
\<close>

definition create_pet :: "pydict \<Rightarrow> database \<Rightarrow> pydict \<times> error option \<times> database" where
  "create_pet data db =
     (let a = coerced_age data; data' = data(''age'' \<mapsto> PInt a) in
      (data',
       (case subscript data' ''name'' of
          Inl e \<Rightarrow> (Some e, db)
        | Inr name \<Rightarrow>
       (case subscript data' ''kind_id'' of
          Inl e \<Rightarrow> (Some e, db)
        | Inr kind \<Rightarrow>
       (case subscript data' ''owner_id'' of
          Inl e \<Rightarrow> (Some e, db)
        | Inr owner \<Rightarrow> Pet_create name a kind owner db)))))"

definition create_kind :: "pydict \<Rightarrow> database \<Rightarrow> error option \<times> database" where
  "create_kind data db =
     (case subscript data ''name'' of
        Inl e \<Rightarrow> (Some e, db)
      | Inr name \<Rightarrow>
     (case subscript data ''food'' of
        Inl e \<Rightarrow> (Some e, db)
      | Inr fd \<Rightarrow>
     (case subscript data ''sound'' of
        Inl e \<Rightarrow> (Some e, db)
      | Inr sd \<Rightarrow> Kind_create name fd sd db)))"

definition create_owner :: "pydict \<Rightarrow> database \<Rightarrow> error option \<times> database" where
  "create_owner data db =
     (case subscript data ''name'' of
        Inl e \<Rightarrow> (Some e, db)
      | Inr name \<Rightarrow>
     (case subscript data ''address'' of
        Inl e \<Rightarrow> (Some e, db)
      | Inr addr \<Rightarrow> Owner_create name addr db))"

definition update_pet :: "pyval \<Rightarrow> pydict \<Rightarrow> database \<Rightarrow> pydict \<times> error option \<times> database" where
  "update_pet idv data db =
     (let a = coerced_age data; data' = data(''age'' \<mapsto> PInt a) in
      (data',
       (case subscript data' ''name'' of
          Inl e \<Rightarrow> (Some e, db)
        | Inr name \<Rightarrow>
       (case subscript data' ''kind_id'' of
          Inl e \<Rightarrow> (Some e, db)
        | Inr kind \<Rightarrow>
       (case subscript data' ''owner_id'' of
          Inl e \<Rightarrow> (Some e, db)
        | Inr owner \<Rightarrow> Pet_update name a kind owner idv db)))))"

definition update_kind :: "pyval \<Rightarrow> pydict \<Rightarrow> database \<Rightarrow> error option \<times> database" where
  "update_kind idv data db =
     (case subscript data ''name'' of
        Inl e \<Rightarrow> (Some e, db)
      | Inr name \<Rightarrow>
     (case subscript data ''food'' of
        Inl e \<Rightarrow> (Some e, db)
      | Inr fd \<Rightarrow>
     (case subscript data ''sound'' of
        Inl e \<Rightarrow> (Some e, db)
      | Inr sd \<Rightarrow> Kind_update name fd sd idv db)))"

definition update_owner :: "pyval \<Rightarrow> pydict \<Rightarrow> database \<Rightarrow> error option \<times> database" where
  "update_owner idv data db =
     (case subscript data ''name'' of
        Inl e \<Rightarrow> (Some e, db)
      | Inr name \<Rightarrow>
     (case subscript data ''address'' of
        Inl e \<Rightarrow> (Some e, db)
      | Inr addr \<Rightarrow> Owner_update name addr idv db))"

definition delete_pet :: "pyval \<Rightarrow> database \<Rightarrow> error option \<times> database" where
  "delete_pet idv db = Pet_delete idv db"

definition delete_kind :: "pyval \<Rightarrow> database \<Rightarrow> error option \<times> database" where
  "delete_kind idv db = Kind_delete idv db"

definition delete_owner :: "pyval \<Rightarrow> database \<Rightarrow> error option \<times> database" where
  "delete_owner idv db = Owner_delete idv db"

section \<open>The route handlers that write (\<^verbatim>\<open>app.py\<close>)\<close>

text \<open>
  A handler returns a response or lets an exception out. \<^verbatim>\<open>redirect\<close> answers with status
  302 and the URL that \<^verbatim>\<open>url_for\<close> builds for an endpoint; \<^verbatim>\<open>render_template\<close> is kept as the
  template's name with the values it is given (the templates are not part of the
  sources).
\<close>

datatype url = UrlFor string

datatype response = Redirect nat url | Render string "(string \<times> string) list"

definition redirect :: "url \<Rightarrow> response" where
  "redirect loc = Redirect 302 loc"

definition render_template :: "string \<Rightarrow> (string \<times> string) list \<Rightarrow> response" where
  "render_template name ctx = Render name ctx"



definition get_delete :: "string \<Rightarrow> database \<Rightarrow> (error + response) \<times> database" where
  "get_delete ident db =
     (case delete_pet (PStr ident) db of
        (Some e, db') \<Rightarrow> (Inl e, db')
      | (None, db') \<Rightarrow> (Inr (redirect (UrlFor ''get_list'')), db'))"



text \<open>\<^verbatim>\<open>try: database.delete_kind(id)  except Exception as e: return render_template(...)\<close>\<close>

definition get_kind_delete :: "string \<Rightarrow> database \<Rightarrow> (error + response) \<times> database" where
  "get_kind_delete ident db =
     (case delete_kind (PStr ident) db of
        (Some e, db') \<Rightarrow> (Inr (render_template ''error.html'' [(''error_text'', error_text e)]), db')
      | (None, db') \<Rightarrow> (Inr (redirect (UrlFor ''get_kind_list'')), db'))"




definition get_owner_delete :: "string \<Rightarrow> database \<Rightarrow> (error + response) \<times> database" where
  "get_owner_delete ident db =
     (case delete_owner (PStr ident) db of
        (Some e, db') \<Rightarrow> (Inr (render_template ''error.html'' [(''error_text'', error_text e)]), db')
      | (None, db') \<Rightarrow> (Inr (redirect (UrlFor ''get_owner_list'')), db'))"

section \<open>Database states, and the states the operations reach\<close>

text \<open>Every pet names the key of a kind and the key of an owner that exist.\<close>

definition ref_integrity :: "database \<Rightarrow> bool" where
  "ref_integrity db =
     (\<forall>p \<in> set (pet_table db).
        (\<exists>k \<in> set (kind_table db). k_id k = kind_id p) \<and>
        (\<exists>ow \<in> set (owner_table db). o_id ow = owner_id p))"

text \<open>
  The \<^verbatim>\<open>id\<close> columns are primary keys: no table of a database holds one key twice. The
  type \<open>database\<close> does not say so by itself.
\<close>

definition pk_unique :: "database \<Rightarrow> bool" where
  "pk_unique db =
     (distinct (map k_id (kind_table db)) \<and> distinct (map o_id (owner_table db)) \<and>
      distinct (map p_id (pet_table db)))"

text \<open>A call of one of the nine functions that write, with its arguments.\<close>

datatype operation =
    CreatePet pydict
  | CreateKind pydict
  | CreateOwner pydict
  | UpdatePet pyval pydict
  | UpdateKind pyval pydict
  | UpdateOwner pyval pydict
  | DeletePet pyval
  | DeleteKind pyval
  | DeleteOwner pyval

text \<open>The state a call leaves, whether it returns or raises.\<close>

fun state_after :: "operation \<Rightarrow> database \<Rightarrow> database" where
  "state_after (CreatePet data) db = snd (snd (create_pet data db))"
| "state_after (CreateKind data) db = snd (create_kind data db)"
| "state_after (CreateOwner data) db = snd (create_owner data db)"
| "state_after (UpdatePet idv data) db = snd (snd (update_pet idv data db))"
| "state_after (UpdateKind idv data) db = snd (update_kind idv data db)"
| "state_after (UpdateOwner idv data) db = snd (update_owner idv data db)"
| "state_after (DeletePet idv) db = snd (delete_pet idv db)"
| "state_after (DeleteKind idv) db = snd (delete_kind idv db)"
| "state_after (DeleteOwner idv) db = snd (delete_owner idv db)"

definition run :: "operation list \<Rightarrow> database \<Rightarrow> database" where
  "run ops db = fold state_after ops db"

section \<open>The sample data of \<^verbatim>\<open>setup_test_database\<close>\<close>

text \<open>
  \<^verbatim>\<open>setup_test_database\<close> empties the tables, inserts two kinds, two owners and four pets
  (the pets through \<^verbatim>\<open>create_pet\<close>, with the keys the two \<^verbatim>\<open>Owner.create\<close> calls
  returned), and asserts that \<^verbatim>\<open>get_pets\<close> has four rows.
\<close>

definition setup_test_database :: "(string \<Rightarrow> error + int option) \<Rightarrow> database" where
  "setup_test_database conv =
     (let db0 = initialize conv;
          db1 = snd (Kind_create (PStr ''dog'') (PStr ''dogfood'') (PStr ''bark'') db0);
          db2 = snd (Kind_create (PStr ''cat'') (PStr ''catfood'') (PStr ''meow'') db1);
          greg = next_id (map o_id (owner_table db2));
          db3 = snd (Owner_create (PStr ''Greg'') (PStr ''1365 Maple Ave.'') db2);
          david = next_id (map o_id (owner_table db3));
          db4 = snd (Owner_create (PStr ''David'') (PStr ''13 Elm St.'') db3);
          pets =
            [[''name'' \<mapsto> PStr ''dorothy'', ''kind_id'' \<mapsto> PInt 1, ''age'' \<mapsto> PInt 9,
              ''owner_id'' \<mapsto> PInt greg],
             [''name'' \<mapsto> PStr ''suzy'', ''kind_id'' \<mapsto> PInt 1, ''age'' \<mapsto> PInt 9,
              ''owner_id'' \<mapsto> PInt greg],
             [''name'' \<mapsto> PStr ''casey'', ''kind_id'' \<mapsto> PInt 2, ''age'' \<mapsto> PInt 9,
              ''owner_id'' \<mapsto> PInt greg],
             [''name'' \<mapsto> PStr ''heidi'', ''kind_id'' \<mapsto> PInt 2, ''age'' \<mapsto> PInt 15,
              ''owner_id'' \<mapsto> PInt david]]
      in fold (\<lambda>pet_data db. snd (snd (create_pet pet_data db))) pets db4)"

text \<open>
  Two connections to run examples on: one whose integer columns leave a text that
  \<^verbatim>\<open>int\<close> refuses as it is, one whose field conversion raises on it.
\<close>

definition keeps_text :: "string \<Rightarrow> error + int option" where
  "keeps_text s = Inr None"

definition refuses_text :: "string \<Rightarrow> error + int option" where
  "refuses_text s = Inl (ValueError (''invalid literal for int() with base 10: '' @ s))"

section \<open>Auxiliary facts\<close>

lemma adapt_int_PInt: "adapt_int db (PInt i) = Inr (SqlInt i)"
  by (simp add: adapt_int_def)

lemma Kind_create_str:
  "Kind_create (PStr n) fd sd db =
     (None, db\<lparr>kind_table := kind_table db @
        [\<lparr>k_id = next_id (map k_id (kind_table db)), k_name = n, food = adapt_text fd,
          sound = adapt_text sd\<rparr>]\<rparr>)"
  by (simp add: Kind_create_def)

lemma Owner_create_str:
  "Owner_create (PStr n) addr db =
     (None, db\<lparr>owner_table := owner_table db @
        [\<lparr>o_id = next_id (map o_id (owner_table db)), o_name = n, address = adapt_text addr\<rparr>]\<rparr>)"
  by (simp add: Owner_create_def)

text \<open>A pet whose fields are well formed and whose references exist is stored.\<close>

lemma create_pet_stores:
  assumes "data ''name'' = Some (PStr n)"
    and "data ''kind_id'' = Some kv" and "adapt_int db kv = Inr (SqlInt k)"
    and "data ''owner_id'' = Some ov" and "adapt_int db ov = Inr (SqlInt ow)"
    and "sql_int (coerced_age data)" and "sql_int k" and "sql_int ow"
    and "k \<in> set (map k_id (kind_table db))" and "ow \<in> set (map o_id (owner_table db))"
  shows "snd (create_pet data db) =
     (None,
      db\<lparr>pet_table := pet_table db @
        [\<lparr>p_id = next_id (map p_id (pet_table db)), p_name = n, age = Some (coerced_age data),
          kind_id = k, owner_id = ow\<rparr>]\<rparr>)"
  using assms
  by (auto simp: create_pet_def Let_def subscript_def Pet_create_def check_pet_columns_def)

lemma sample_rows:
  "setup_test_database conv =
     \<lparr>kind_table =
        [\<lparr>k_id = 1, k_name = ''dog'', food = Some ''dogfood'', sound = Some ''bark''\<rparr>,
         \<lparr>k_id = 2, k_name = ''cat'', food = Some ''catfood'', sound = Some ''meow''\<rparr>],
      owner_table =
        [\<lparr>o_id = 1, o_name = ''Greg'', address = Some ''1365 Maple Ave.''\<rparr>,
         \<lparr>o_id = 2, o_name = ''David'', address = Some ''13 Elm St.''\<rparr>],
      pet_table =
        [\<lparr>p_id = 1, p_name = ''dorothy'', age = Some 9, kind_id = 1, owner_id = 1\<rparr>,
         \<lparr>p_id = 2, p_name = ''suzy'', age = Some 9, kind_id = 1, owner_id = 1\<rparr>,
         \<lparr>p_id = 3, p_name = ''casey'', age = Some 9, kind_id = 2, owner_id = 1\<rparr>,
         \<lparr>p_id = 4, p_name = ''heidi'', age = Some 15, kind_id = 2, owner_id = 2\<rparr>],
      text_as_key = conv\<rparr>"
  unfolding setup_test_database_def Let_def
  by (simp add: initialize_def Kind_create_str Owner_create_str create_pet_stores
      adapt_int_PInt coerced_age_def sql_int_def)

section \<open>Deleting a kind or an owner that a pet refers to\<close>

text \<open>
  C1. Take any state and any key \<open>i\<close>. If a \<^verbatim>\<open>Kind\<close> row has the key \<open>i\<close> and some \<^verbatim>\<open>Pet\<close>
  row refers to it, \<^verbatim>\<open>delete_kind(i)\<close> raises an error and the state after the call is the
  state before it; the error is the foreign-key \<^verbatim>\<open>IntegrityError\<close> whenever \<open>i\<close> is a
  key the driver can bind. The same holds for \<^verbatim>\<open>delete_owner\<close> and an \<^verbatim>\<open>Owner\<close> row some pet
  refers to.
\<close>

theorem delete_referenced_fails:
  "((\<exists>k \<in> set (kind_table db). k_id k = i) \<and> (\<exists>p \<in> set (pet_table db). kind_id p = i) \<longrightarrow>
      (\<exists>e. delete_kind (PInt i) db = (Some e, db) \<and> (sql_int i \<longrightarrow> e = fk_error))) \<and>
   ((\<exists>ow \<in> set (owner_table db). o_id ow = i) \<and> (\<exists>p \<in> set (pet_table db). owner_id p = i) \<longrightarrow>
      (\<exists>e. delete_owner (PInt i) db = (Some e, db) \<and> (sql_int i \<longrightarrow> e = fk_error)))"
  by (auto simp: delete_kind_def Kind_delete_def delete_owner_def Owner_delete_def adapt_int_PInt)

text \<open>In the sample data kind 1 (dog) and owner 1 (Greg) have pets.\<close>

theorem delete_referenced_fails_witness:
  "delete_kind (PInt 1) (setup_test_database keeps_text) =
     (Some fk_error, setup_test_database keeps_text) \<and>
   delete_owner (PInt 1) (setup_test_database keeps_text) =
     (Some fk_error, setup_test_database keeps_text)"
  using delete_referenced_fails [of "setup_test_database keeps_text" 1]
  by (simp add: sample_rows sql_int_def)

section \<open>Referential integrity is kept by every write\<close>

lemma ref_integrity_keys:
  "ref_integrity db \<longleftrightarrow>
     (\<forall>p \<in> set (pet_table db).
        kind_id p \<in> set (map k_id (kind_table db)) \<and>
        owner_id p \<in> set (map o_id (owner_table db)))"
  unfolding ref_integrity_def set_map image_iff by (intro ball_cong refl) metis

lemma kind_key_kept:
  "k_id \<circ> (\<lambda>k. if c k then k\<lparr>k_name := n, food := f, sound := s\<rparr> else k) = k_id"
  by (rule ext) simp

lemma owner_key_kept:
  "o_id \<circ> (\<lambda>ow. if c ow then ow\<lparr>o_name := n, address := a\<rparr> else ow) = o_id"
  by (rule ext) simp

lemma ri_Kind_update: "ref_integrity db \<Longrightarrow> ref_integrity (snd (Kind_update name fd sd idv db))"
  unfolding ref_integrity_keys
  by (simp add: Kind_update_def kind_key_kept del: set_map split: sum.splits option.splits)

lemma ri_Owner_update: "ref_integrity db \<Longrightarrow> ref_integrity (snd (Owner_update name addr idv db))"
  unfolding ref_integrity_keys
  by (simp add: Owner_update_def owner_key_kept del: set_map split: sum.splits option.splits)

lemma ri_Kind_delete:
  assumes "ref_integrity db"
  shows "ref_integrity (snd (Kind_delete idv db))"
proof (cases "adapt_int db idv")
  case (Inl e)
  with assms show ?thesis by (simp add: Kind_delete_def)
next
  case (Inr v)
  let ?blocked = "\<exists>k \<in> set (kind_table db).
                    selects v (k_id k) \<and> (\<exists>p \<in> set (pet_table db). kind_id p = k_id k)"
  show ?thesis
  proof (cases "\<not> bindable v \<or> ?blocked")
    case True
    with Inr have "snd (Kind_delete idv db) = db"
      by (auto simp: Kind_delete_def)
    with assms show ?thesis by simp
  next
    case False
    with Inr have after: "snd (Kind_delete idv db) =
        db\<lparr>kind_table := filter (\<lambda>k. \<not> selects v (k_id k)) (kind_table db)\<rparr>"
      by (auto simp: Kind_delete_def)
    have "\<exists>k \<in> set (kind_table db). \<not> selects v (k_id k) \<and> k_id k = kind_id p"
      if "p \<in> set (pet_table db)" for p
    proof -
      from assms that obtain k where "k \<in> set (kind_table db)" "k_id k = kind_id p"
        unfolding ref_integrity_def by blast
      with False that show ?thesis by metis
    qed
    with assms show ?thesis
      unfolding after ref_integrity_def by simp blast
  qed
qed

lemma ri_Owner_delete:
  assumes "ref_integrity db"
  shows "ref_integrity (snd (Owner_delete idv db))"
proof (cases "adapt_int db idv")
  case (Inl e)
  with assms show ?thesis by (simp add: Owner_delete_def)
next
  case (Inr v)
  let ?blocked = "\<exists>ow \<in> set (owner_table db).
                    selects v (o_id ow) \<and> (\<exists>p \<in> set (pet_table db). owner_id p = o_id ow)"
  show ?thesis
  proof (cases "\<not> bindable v \<or> ?blocked")
    case True
    with Inr have "snd (Owner_delete idv db) = db"
      by (auto simp: Owner_delete_def)
    with assms show ?thesis by simp
  next
    case False
    with Inr have after: "snd (Owner_delete idv db) =
        db\<lparr>owner_table := filter (\<lambda>ow. \<not> selects v (o_id ow)) (owner_table db)\<rparr>"
      by (auto simp: Owner_delete_def)
    have "\<exists>ow \<in> set (owner_table db). \<not> selects v (o_id ow) \<and> o_id ow = owner_id p"
      if "p \<in> set (pet_table db)" for p
    proof -
      from assms that obtain ow where "ow \<in> set (owner_table db)" "o_id ow = owner_id p"
        unfolding ref_integrity_def by blast
      with False that show ?thesis by metis
    qed
    with assms show ?thesis
      unfolding after ref_integrity_def by simp blast
  qed
qed

lemma ri_Pet_create: "ref_integrity db \<Longrightarrow> ref_integrity (snd (Pet_create name a kind owner db))"
  by (auto simp: Pet_create_def check_pet_columns_def ref_integrity_def
      split: sum.splits option.splits sqlval.splits if_splits)

lemma ri_Pet_update: "ref_integrity db \<Longrightarrow> ref_integrity (snd (Pet_update name a kind owner idv db))"
  by (auto simp: Pet_update_def check_pet_columns_def ref_integrity_def
      split: sum.splits option.splits sqlval.splits if_splits)

lemma ri_Pet_delete: "ref_integrity db \<Longrightarrow> ref_integrity (snd (Pet_delete idv db))"
  by (auto simp: Pet_delete_def ref_integrity_def split: sum.splits if_splits)

lemma ri_Kind_create: "ref_integrity db \<Longrightarrow> ref_integrity (snd (Kind_create name fd sd db))"
  by (auto simp: Kind_create_def ref_integrity_def split: option.splits)

lemma ri_Owner_create: "ref_integrity db \<Longrightarrow> ref_integrity (snd (Owner_create name addr db))"
  by (auto simp: Owner_create_def ref_integrity_def split: option.splits)

lemma ri_state_after: "ref_integrity db \<Longrightarrow> ref_integrity (state_after call db)"
proof (cases call)
  case (CreatePet data)
  assume "ref_integrity db"
  then show ?thesis
    unfolding CreatePet
    by (simp add: create_pet_def Let_def subscript_def ri_Pet_create split: option.splits)
next
  case (CreateKind data)
  assume "ref_integrity db"
  then show ?thesis
    unfolding CreateKind
    by (simp add: create_kind_def subscript_def ri_Kind_create split: option.splits)
next
  case (CreateOwner data)
  assume "ref_integrity db"
  then show ?thesis
    unfolding CreateOwner
    by (simp add: create_owner_def subscript_def ri_Owner_create split: option.splits)
next
  case (UpdatePet idv data)
  assume "ref_integrity db"
  then show ?thesis
    unfolding UpdatePet
    by (simp add: update_pet_def Let_def subscript_def ri_Pet_update split: option.splits)
next
  case (UpdateKind idv data)
  assume "ref_integrity db"
  then show ?thesis
    unfolding UpdateKind
    by (simp add: update_kind_def subscript_def ri_Kind_update split: option.splits)
next
  case (UpdateOwner idv data)
  assume "ref_integrity db"
  then show ?thesis
    unfolding UpdateOwner
    by (simp add: update_owner_def subscript_def ri_Owner_update split: option.splits)
next
  case (DeletePet idv)
  assume "ref_integrity db"
  then show ?thesis
    unfolding DeletePet by (simp add: delete_pet_def ri_Pet_delete)
next
  case (DeleteKind idv)
  assume "ref_integrity db"
  then show ?thesis
    unfolding DeleteKind by (simp add: delete_kind_def ri_Kind_delete)
next
  case (DeleteOwner idv)
  assume "ref_integrity db"
  then show ?thesis
    unfolding DeleteOwner by (simp add: delete_owner_def ri_Owner_delete)
qed

lemma ri_run: "ref_integrity db \<Longrightarrow> ref_integrity (run calls db)"
  unfolding run_def by (induction calls arbitrary: db) (simp_all add: ri_state_after)

text \<open>
  C2. Start from the empty database that \<^verbatim>\<open>initialize\<close> sets up and make any sequence of
  calls of \<^verbatim>\<open>create_pet\<close>, \<^verbatim>\<open>create_kind\<close>, \<^verbatim>\<open>create_owner\<close>, \<^verbatim>\<open>update_pet\<close>, \<^verbatim>\<open>update_kind\<close>,
  \<^verbatim>\<open>update_owner\<close>, \<^verbatim>\<open>delete_pet\<close>, \<^verbatim>\<open>delete_kind\<close>, \<^verbatim>\<open>delete_owner\<close>, with any arguments,
  whether they return or raise. In the state reached, the \<^verbatim>\<open>kind_id\<close> of every \<^verbatim>\<open>Pet\<close> row is
  the key of a \<^verbatim>\<open>Kind\<close> row and its \<^verbatim>\<open>owner_id\<close> is the key of an \<^verbatim>\<open>Owner\<close> row.
\<close>

theorem ref_integrity_reachable: "ref_integrity (run calls (initialize conv))"
  by (rule ri_run) (simp add: ref_integrity_def initialize_def)

text \<open>
  A run that stores a pet and then tries to take its kind and its owner away, and to
  move it to a kind that does not exist.
\<close>

theorem ref_integrity_reachable_witness:
  "pet_table
     (run [CreateKind [''name'' \<mapsto> PStr ''dog'', ''food'' \<mapsto> PStr ''dogfood'', ''sound'' \<mapsto> PStr ''bark''],
           CreateOwner [''name'' \<mapsto> PStr ''Greg'', ''address'' \<mapsto> PStr ''1365 Maple Ave.''],
           CreatePet [''name'' \<mapsto> PStr ''dorothy'', ''age'' \<mapsto> PStr ''9'', ''kind_id'' \<mapsto> PStr ''1'',
                      ''owner_id'' \<mapsto> PStr ''1''],
           DeleteKind (PInt 1), DeleteOwner (PStr ''1''),
           UpdatePet (PInt 1) [''name'' \<mapsto> PStr ''dorothy'', ''age'' \<mapsto> PStr ''10'',
                               ''kind_id'' \<mapsto> PStr ''7'', ''owner_id'' \<mapsto> PStr ''1'']]
        (initialize keeps_text)) =
     [\<lparr>p_id = 1, p_name = ''dorothy'', age = Some 9, kind_id = 1, owner_id = 1\<rparr>] \<and>
   ref_integrity
     (run [CreateKind [''name'' \<mapsto> PStr ''dog'', ''food'' \<mapsto> PStr ''dogfood'', ''sound'' \<mapsto> PStr ''bark''],
           CreateOwner [''name'' \<mapsto> PStr ''Greg'', ''address'' \<mapsto> PStr ''1365 Maple Ave.''],
           CreatePet [''name'' \<mapsto> PStr ''dorothy'', ''age'' \<mapsto> PStr ''9'', ''kind_id'' \<mapsto> PStr ''1'',
                      ''owner_id'' \<mapsto> PStr ''1''],
           DeleteKind (PInt 1), DeleteOwner (PStr ''1''),
           UpdatePet (PInt 1) [''name'' \<mapsto> PStr ''dorothy'', ''age'' \<mapsto> PStr ''10'',
                               ''kind_id'' \<mapsto> PStr ''7'', ''owner_id'' \<mapsto> PStr ''1'']]
        (initialize keeps_text))"
proof -
  let ?calls =
    "[CreateKind [''name'' \<mapsto> PStr ''dog'', ''food'' \<mapsto> PStr ''dogfood'', ''sound'' \<mapsto> PStr ''bark''],
      CreateOwner [''name'' \<mapsto> PStr ''Greg'', ''address'' \<mapsto> PStr ''1365 Maple Ave.''],
      CreatePet [''name'' \<mapsto> PStr ''dorothy'', ''age'' \<mapsto> PStr ''9'', ''kind_id'' \<mapsto> PStr ''1'',
                 ''owner_id'' \<mapsto> PStr ''1''],
      DeleteKind (PInt 1), DeleteOwner (PStr ''1''),
      UpdatePet (PInt 1) [''name'' \<mapsto> PStr ''dorothy'', ''age'' \<mapsto> PStr ''10'',
                          ''kind_id'' \<mapsto> PStr ''7'', ''owner_id'' \<mapsto> PStr ''1'']]"
  have digits: "py_int_str ''1'' = Some 1" "py_int_str ''7'' = Some 7"
    "py_int_str ''9'' = Some 9" "py_int_str ''10'' = Some 10"
    by (simp_all add: py_int_str_def strip_def is_space_def digit_val_def)
  have reached: "run ?calls (initialize keeps_text) =
     \<lparr>kind_table = [\<lparr>k_id = 1, k_name = ''dog'', food = Some ''dogfood'', sound = Some ''bark''\<rparr>],
      owner_table = [\<lparr>o_id = 1, o_name = ''Greg'', address = Some ''1365 Maple Ave.''\<rparr>],
      pet_table = [\<lparr>p_id = 1, p_name = ''dorothy'', age = Some 9, kind_id = 1, owner_id = 1\<rparr>],
      text_as_key = keeps_text\<rparr>"
    by (simp add: run_def initialize_def create_kind_def create_owner_def create_pet_def
        update_pet_def delete_kind_def delete_owner_def subscript_def Kind_create_def
        Owner_create_def Pet_create_def Pet_update_def Kind_delete_def Owner_delete_def
        check_pet_columns_def coerced_age_def adapt_int_def digits sql_int_def Let_def)
  have "ref_integrity (run ?calls (initialize keeps_text))"
    by (rule ref_integrity_reachable)
  then show ?thesis
    unfolding reached by simp
qed

section \<open>The age that \<^verbatim>\<open>create_pet\<close> and \<^verbatim>\<open>update_pet\<close> write\<close>



lemma pet_key_kept:
  "p_id \<circ> (\<lambda>p. if c p then p\<lparr>p_name := n, age := a, kind_id := k, owner_id := ow\<rparr> else p) = p_id"
  by (rule ext) simp





section \<open>What the two functions do to the caller's dictionary\<close>



section \<open>The joined read\<close>

text \<open>A key that occurs once in a table selects exactly its row.\<close>

lemma join_on_key:
  assumes "distinct (map key rows)" and "x \<in> set rows" and "key x = v"
  shows "concat (map (\<lambda>y. if key y = v then g y else []) rows) = g x"
  using assms
proof (induction rows)
  case Nil
  then show ?case by simp
next
  case (Cons y rows)
  show ?case
  proof (cases "y = x")
    case True
    with Cons.prems have "\<forall>z \<in> set rows. key z \<noteq> v"
      by (fastforce simp: image_iff)
    then have "concat (map (\<lambda>y. if key y = v then g y else []) rows) = []"
      by (induction rows) auto
    with True Cons.prems show ?thesis by simp
  next
    case False
    with Cons.prems have "x \<in> set rows" and "key y \<noteq> v" and "distinct (map key rows)"
      by auto
    with Cons.IH Cons.prems show ?thesis by simp
  qed
qed

lemma joined_rows:
  assumes "distinct (map k_id ks)" and "distinct (map o_id os)"
    and "\<forall>p \<in> set ps. (\<exists>k \<in> set ks. k_id k = kind_id p) \<and> (\<exists>ow \<in> set os. o_id ow = owner_id p)"
  shows "list_all2
           (\<lambda>p d. \<exists>k \<in> set ks. \<exists>ow \<in> set os.
                     k_id k = kind_id p \<and> o_id ow = owner_id p \<and> d = pet_join_row p k ow)
           ps
           [pet_join_row p k ow. p \<leftarrow> ps, k \<leftarrow> ks, k_id k = kind_id p,
                                  ow \<leftarrow> os, o_id ow = owner_id p]"
  using assms(3)
proof (induction ps)
  case Nil
  then show ?case by simp
next
  case (Cons p ps)
  then obtain k ow where k: "k \<in> set ks" "k_id k = kind_id p"
    and ow: "ow \<in> set os" "o_id ow = owner_id p"
    by auto
  have inner: "concat (map (\<lambda>ow. if o_id ow = owner_id p then [pet_join_row p k' ow] else []) os) =
               [pet_join_row p k' ow]" for k'
    using assms(2) ow by (rule join_on_key)
  have "concat (map (\<lambda>k. if k_id k = kind_id p
                          then concat (map (\<lambda>ow. if o_id ow = owner_id p
                                                  then [pet_join_row p k ow] else []) os)
                          else []) ks) =
        concat (map (\<lambda>ow. if o_id ow = owner_id p then [pet_join_row p k ow] else []) os)"
    using assms(1) k by (rule join_on_key)
  with inner have "concat (map (\<lambda>k. if k_id k = kind_id p
                          then concat (map (\<lambda>ow. if o_id ow = owner_id p
                                                  then [pet_join_row p k ow] else []) os)
                          else []) ks) = [pet_join_row p k ow]"
    by simp
  with Cons k ow show ?case by auto
qed

text \<open>
  The keys the tables hand out are fresh, so the states that the writes reach from the
  empty database hold no key twice.
\<close>

lemma fold_max_bounds: "(x::int) \<le> fold max xs x \<and> (\<forall>y \<in> set xs. y \<le> fold max xs x)"
proof (induction xs arbitrary: x)
  case Nil
  show ?case by simp
next
  case (Cons z zs)
  from Cons.IH [of "max z x"] show ?case by auto
qed

lemma next_id_fresh: "next_id ids \<notin> set ids"
proof (cases ids)
  case Nil
  then show ?thesis by simp
next
  case (Cons x xs)
  from fold_max_bounds [of x xs] have "\<forall>y \<in> set (x # xs). y < next_id (x # xs)"
    by auto
  with Cons show ?thesis by blast
qed

lemma pk_Pet_create: "pk_unique db \<Longrightarrow> pk_unique (snd (Pet_create name a kind owner db))"
  using next_id_fresh [of "map p_id (pet_table db)"]
  by (auto simp: Pet_create_def pk_unique_def split: sum.splits prod.splits)

lemma pk_Kind_create: "pk_unique db \<Longrightarrow> pk_unique (snd (Kind_create name fd sd db))"
  using next_id_fresh [of "map k_id (kind_table db)"]
  by (auto simp: Kind_create_def pk_unique_def split: option.splits)

lemma pk_Owner_create: "pk_unique db \<Longrightarrow> pk_unique (snd (Owner_create name addr db))"
  using next_id_fresh [of "map o_id (owner_table db)"]
  by (auto simp: Owner_create_def pk_unique_def split: option.splits)

lemma pk_Pet_update: "pk_unique db \<Longrightarrow> pk_unique (snd (Pet_update name a kind owner idv db))"
  by (simp add: Pet_update_def pk_unique_def pet_key_kept split: sum.splits prod.splits)

lemma pk_Kind_update: "pk_unique db \<Longrightarrow> pk_unique (snd (Kind_update name fd sd idv db))"
  by (simp add: Kind_update_def pk_unique_def kind_key_kept split: sum.splits option.splits)

lemma pk_Owner_update: "pk_unique db \<Longrightarrow> pk_unique (snd (Owner_update name addr idv db))"
  by (simp add: Owner_update_def pk_unique_def owner_key_kept split: sum.splits option.splits)

lemma pk_Pet_delete: "pk_unique db \<Longrightarrow> pk_unique (snd (Pet_delete idv db))"
  by (simp add: Pet_delete_def pk_unique_def distinct_map_filter split: sum.splits)

lemma pk_Kind_delete: "pk_unique db \<Longrightarrow> pk_unique (snd (Kind_delete idv db))"
  by (simp add: Kind_delete_def pk_unique_def distinct_map_filter split: sum.splits)

lemma pk_Owner_delete: "pk_unique db \<Longrightarrow> pk_unique (snd (Owner_delete idv db))"
  by (simp add: Owner_delete_def pk_unique_def distinct_map_filter split: sum.splits)

lemma pk_state_after: "pk_unique db \<Longrightarrow> pk_unique (state_after call db)"
  by (cases call)
    (simp_all add: create_pet_def create_kind_def create_owner_def update_pet_def
      update_kind_def update_owner_def delete_pet_def delete_kind_def delete_owner_def
      Let_def subscript_def pk_Pet_create pk_Kind_create pk_Owner_create pk_Pet_update
      pk_Kind_update pk_Owner_update pk_Pet_delete pk_Kind_delete pk_Owner_delete
      split: option.splits)

lemma pk_run: "pk_unique db \<Longrightarrow> pk_unique (run calls db)"
  unfolding run_def by (induction calls arbitrary: db) (simp_all add: pk_state_after)

lemma pk_unique_reachable: "pk_unique (run calls (initialize conv))"
  by (rule pk_run) (simp add: pk_unique_def initialize_def)

text \<open>
  C4. In every database state (no key twice in a table) in which each pet refers to an
  existing kind and an existing owner, \<^verbatim>\<open>get_pets\<close> returns as many dictionaries as the
  \<^verbatim>\<open>Pet\<close> table has rows, one per row (listed here in the order of the table); the dictionary of a pet holds
  its \<^verbatim>\<open>id\<close>, \<^verbatim>\<open>name\<close> and \<^verbatim>\<open>age\<close>, the name (\<^verbatim>\<open>kind_name\<close>), \<^verbatim>\<open>food\<close> and \<^verbatim>\<open>sound\<close> of the kind
  it refers to, and the name of the owner it refers to (\<^verbatim>\<open>owner\<close>).
\<close>

theorem get_pets_one_row_per_pet:
  assumes "pk_unique db" and "ref_integrity db"
  shows "length (get_pets db) = length (pet_table db) \<and>
         list_all2
           (\<lambda>p d. \<exists>k \<in> set (kind_table db). \<exists>ow \<in> set (owner_table db).
                     k_id k = kind_id p \<and> o_id ow = owner_id p \<and>
                     d = [''id'' \<mapsto> PInt (p_id p), ''name'' \<mapsto> PStr (p_name p),
                          ''age'' \<mapsto> opt_int (age p), ''kind_name'' \<mapsto> PStr (k_name k),
                          ''food'' \<mapsto> opt_str (food k), ''sound'' \<mapsto> opt_str (sound k),
                          ''owner'' \<mapsto> PStr (o_name ow)])
           (pet_table db) (get_pets db)"
proof -
  from assms have "list_all2
           (\<lambda>p d. \<exists>k \<in> set (kind_table db). \<exists>ow \<in> set (owner_table db).
                     k_id k = kind_id p \<and> o_id ow = owner_id p \<and> d = pet_join_row p k ow)
           (pet_table db) (get_pets db)"
    unfolding get_pets_def pk_unique_def ref_integrity_def
    by (intro joined_rows) simp_all
  then show ?thesis
    by (simp add: pet_join_row_def list_all2_lengthD)
qed

text \<open>
  The sample data, where \<^verbatim>\<open>setup_test_database\<close> asserts \<^verbatim>\<open>len(get_pets()) == 4\<close>.
\<close>

theorem get_pets_one_row_per_pet_witness:
  "pk_unique (setup_test_database keeps_text) \<and>
   ref_integrity (setup_test_database keeps_text) \<and>
   length (get_pets (setup_test_database keeps_text)) = 4"
proof -
  have state: "pk_unique (setup_test_database keeps_text)"
    "ref_integrity (setup_test_database keeps_text)"
    by (simp_all add: sample_rows pk_unique_def ref_integrity_def)
  have "length (pet_table (setup_test_database keeps_text)) = 4"
    by (simp add: sample_rows)
  with get_pets_one_row_per_pet [OF state] state show ?thesis
    by simp
qed

section \<open>Reading one row\<close>

lemma get_or_none_PInt:
  "sql_int i \<Longrightarrow> get_or_none db key rows (PInt i) = Inr (find (\<lambda>r. key r = i) rows)"
  by (simp add: get_or_none_def adapt_int_PInt)

lemma find_absent: "\<forall>r \<in> set rows. key r \<noteq> i \<Longrightarrow> find (\<lambda>r. key r = i) rows = None"
  by (induction rows) simp_all




text \<open>
  C9. On a miss (the key \<open>i\<close>, a signed 64-bit integer, is the key of no row)
  \<^verbatim>\<open>get_pet\<close> and \<^verbatim>\<open>get_kind\<close> return the string \<^verbatim>\<open>"Data not found."\<close> and \<^verbatim>\<open>get_owner\<close> returns
  \<^verbatim>\<open>"Data not found"\<close>; the two strings differ.
\<close>

theorem not_found_strings:
  assumes "sql_int i"
  shows "((\<forall>p \<in> set (pet_table db). p_id p \<noteq> i) \<longrightarrow>
            get_pet (PInt i) db = Inr (Str ''Data not found.'')) \<and>
         ((\<forall>k \<in> set (kind_table db). k_id k \<noteq> i) \<longrightarrow>
            get_kind (PInt i) db = Inr (Str ''Data not found.'')) \<and>
         ((\<forall>ow \<in> set (owner_table db). o_id ow \<noteq> i) \<longrightarrow>
            get_owner (PInt i) db = Inr (Str ''Data not found'')) \<and>
         Str ''Data not found'' \<noteq> Str ''Data not found.''"
  by (simp add: get_pet_def get_kind_def get_owner_def get_or_none_PInt [OF assms] find_absent)

theorem not_found_strings_witness:
  "sql_int 7 \<and>
   get_pet (PInt 7) (setup_test_database keeps_text) = Inr (Str ''Data not found.'') \<and>
   get_kind (PInt 7) (setup_test_database keeps_text) = Inr (Str ''Data not found.'') \<and>
   get_owner (PInt 7) (setup_test_database keeps_text) = Inr (Str ''Data not found'') \<and>
   get_owner (PInt 7) (setup_test_database keeps_text) \<noteq>
     get_kind (PInt 7) (setup_test_database keeps_text)"
proof -
  have range: "sql_int 7"
    by (simp add: sql_int_def)
  show ?thesis
    using not_found_strings [OF range, of "setup_test_database keeps_text"] range
    by (simp add: sample_rows)
qed

section \<open>The handlers that write\<close>

text \<open>
  C6, as the code has it. The \<^verbatim>\<open>Kind\<close> and \<^verbatim>\<open>Owner\<close> delete handlers catch whatever
  \<^verbatim>\<open>delete_kind\<close> or \<^verbatim>\<open>delete_owner\<close> raises and return the error view with the text of
  the error. The \<^verbatim>\<open>Pet\<close> delete handler has no \<^verbatim>\<open>try\<close>: it redirects to the pet list when
  \<^verbatim>\<open>delete_pet\<close> returns, and what \<^verbatim>\<open>delete_pet\<close> raises leaves the handler.
\<close>

theorem delete_handlers:
  "(delete_kind (PStr ident) db = (Some e, db') \<longrightarrow>
      get_kind_delete ident db = (Inr (Render ''error.html'' [(''error_text'', error_text e)]), db')) \<and>
   (delete_owner (PStr ident) db = (Some e, db') \<longrightarrow>
      get_owner_delete ident db = (Inr (Render ''error.html'' [(''error_text'', error_text e)]), db')) \<and>
   (delete_pet (PStr ident) db = (Some e, db') \<longrightarrow> get_delete ident db = (Inl e, db')) \<and>
   (delete_pet (PStr ident) db = (None, db') \<longrightarrow>
      get_delete ident db = (Inr (Redirect 302 (UrlFor ''get_list'')), db'))"
  by (simp add: get_kind_delete_def get_owner_delete_def get_delete_def render_template_def
      redirect_def)

text \<open>
  \<^verbatim>\<open>/kind/delete/1\<close> on the sample data, where kind 1 has pets, and a pet key that no
  64-bit integer holds.
\<close>

theorem delete_handlers_witness:
  "get_kind_delete ''1'' (setup_test_database keeps_text) =
     (Inr (Render ''error.html'' [(''error_text'', ''FOREIGN KEY constraint failed'')]),
      setup_test_database keeps_text) \<and>
   get_delete ''9223372036854775808'' (setup_test_database keeps_text) =
     (Inl overflow_error, setup_test_database keeps_text) \<and>
   fst (get_delete ''4'' (setup_test_database keeps_text)) =
     Inr (Redirect 302 (UrlFor ''get_list''))"
proof -
  let ?db = "setup_test_database keeps_text"
  have digits: "py_int_str ''1'' = Some 1" "py_int_str ''4'' = Some 4"
    "py_int_str ''9223372036854775808'' = Some 9223372036854775808"
    by (simp_all add: py_int_str_def strip_def is_space_def digit_val_def)
  have kind: "delete_kind (PStr ''1'') ?db = (Some fk_error, ?db)"
    by (simp add: delete_kind_def Kind_delete_def adapt_int_def digits sql_int_def sample_rows)
  have big: "delete_pet (PStr ''9223372036854775808'') ?db = (Some overflow_error, ?db)"
    by (simp add: delete_pet_def Pet_delete_def adapt_int_def digits sql_int_def)
  have pet: "delete_pet (PStr ''4'') ?db = (None, snd (delete_pet (PStr ''4'') ?db))"
    by (simp add: delete_pet_def Pet_delete_def adapt_int_def digits sql_int_def)
  from delete_handlers [of "''1''" ?db fk_error ?db] kind
  have "get_kind_delete ''1'' ?db =
          (Inr (Render ''error.html'' [(''error_text'', ''FOREIGN KEY constraint failed'')]), ?db)"
    by (simp add: fk_error_def)
  moreover from delete_handlers [of "''9223372036854775808''" ?db overflow_error ?db] big
  have "get_delete ''9223372036854775808'' ?db = (Inl overflow_error, ?db)"
    by simp
  moreover from delete_handlers [of "''4''" ?db _ "snd (delete_pet (PStr ''4'') ?db)"] pet
  have "fst (get_delete ''4'' ?db) = Inr (Redirect 302 (UrlFor ''get_list''))"
    by simp
  ultimately show ?thesis by simp
qed

text \<open>
  C6 as stated fails for \<^verbatim>\<open>Pet\<close>: on \<^verbatim>\<open>/pet/delete/9223372036854775808\<close> the call
  \<^verbatim>\<open>delete_pet\<close> raises \<^verbatim>\<open>OverflowError\<close>, and the handler returns no error view: the error
  leaves it.
\<close>

theorem pet_delete_handler_lets_error_out:
  "delete_pet (PStr ''9223372036854775808'') (initialize keeps_text) =
     (Some overflow_error, initialize keeps_text) \<and>
   fst (get_delete ''9223372036854775808'' (initialize keeps_text)) = Inl overflow_error \<and>
   fst (get_delete ''9223372036854775808'' (initialize keeps_text)) \<noteq>
     Inr (Render ''error.html'' [(''error_text'', error_text overflow_error)])"
proof -
  have "py_int_str ''9223372036854775808'' = Some 9223372036854775808"
    by (simp add: py_int_str_def strip_def is_space_def digit_val_def)
  then show ?thesis
    by (simp add: get_delete_def delete_pet_def Pet_delete_def adapt_int_def sql_int_def)
qed



section \<open>Writes to a key that no row has\<close>

lemma no_row_selected:
  "\<forall>r \<in> set rows. key r \<noteq> i \<Longrightarrow> \<not> (\<exists>r \<in> set rows. selects (SqlInt i) (key r))"
  by simp











end
